theory Spec2Isabelle
  imports Complex_Main
begin

section \<open>Python values\<close>

text \<open>
  The booking code of the repository lives in two functions: \<open>book\<close>, the handler of
  \<^verbatim>\<open>POST /api/book\<close> in \<^verbatim>\<open>flask_backend.py\<close>, and \<open>book_ticket\<close>, the
  callback of the booking form in \<^verbatim>\<open>flightmanagementsystem.py\<close>. Both receive
  dynamically typed values (a decoded JSON document, the values of form widgets), so the
  model starts with the values themselves. \<open>PFloat\<close> carries the real number a finite
  binary64 value denotes; rounding, infinities and NaN are not modelled.
\<close>

datatype pyval =
    PNone
  | PBool bool
  | PInt int
  | PFloat real
  | PStr string
  | PList "pyval list"
  | PDict "(string \<times> pyval) list"

datatype pyexn =
    TypeError
  | ValueError
  | OverflowError
  | AttributeError
  | ProgrammingError
  | DatabaseError

text \<open>
  What the code takes from outside Python source: how \<^verbatim>\<open>float\<close> and \<^verbatim>\<open>int\<close> read a
  string (\<open>None\<close> is their \<^verbatim>\<open>ValueError\<close>), and the number MySQL reads a string as
  when it compares it with an integer column. They are parameters of the model.
\<close>

record extern =
  float_of_str :: "string \<Rightarrow> real option"
  int_of_str :: "string \<Rightarrow> int option"
  sql_num_of_str :: "string \<Rightarrow> real"

text \<open>Truth value of an object, as \<^verbatim>\<open>not x\<close> and \<^verbatim>\<open>x if c else y\<close> test it.\<close>

fun truthy :: "pyval \<Rightarrow> bool" where
  "truthy PNone = False"
| "truthy (PBool b) = b"
| "truthy (PInt i) = (i \<noteq> 0)"
| "truthy (PFloat r) = (r \<noteq> 0)"
| "truthy (PStr s) = (s \<noteq> [])"
| "truthy (PList xs) = (xs \<noteq> [])"
| "truthy (PDict kvs) = (kvs \<noteq> [])"

text \<open>
  \<^verbatim>\<open>d.get(k, default)\<close>: only a dict has the method; on any other object the
  attribute lookup raises.
\<close>

definition dict_get :: "(string \<times> pyval) list \<Rightarrow> string \<Rightarrow> pyval \<Rightarrow> pyval" where
  "dict_get kvs k dflt = (case map_of kvs k of None \<Rightarrow> dflt | Some v \<Rightarrow> v)"

fun py_get :: "pyval \<Rightarrow> string \<Rightarrow> pyval \<Rightarrow> pyexn + pyval" where
  "py_get (PDict kvs) k dflt = Inr (dict_get kvs k dflt)"
| "py_get _ k dflt = Inl AttributeError"

text \<open>
  \<^verbatim>\<open>float(x)\<close>. An integer whose nearest binary64 value would be infinite raises
  \<^verbatim>\<open>OverflowError\<close>.
\<close>

fun py_float :: "extern \<Rightarrow> pyval \<Rightarrow> pyexn + real" where
  "py_float E PNone = Inl TypeError"
| "py_float E (PBool b) = Inr (if b then 1 else 0)"
| "py_float E (PInt i) =
     (if \<bar>i\<bar> \<ge> 2 ^ 1024 - 2 ^ 970 then Inl OverflowError else Inr (of_int i))"
| "py_float E (PFloat r) = Inr r"
| "py_float E (PStr s) =
     (case float_of_str E s of None \<Rightarrow> Inl ValueError | Some r \<Rightarrow> Inr r)"
| "py_float E (PList xs) = Inl TypeError"
| "py_float E (PDict kvs) = Inl TypeError"

text \<open>\<^verbatim>\<open>int(x)\<close>; a float is truncated towards zero.\<close>

fun py_int :: "extern \<Rightarrow> pyval \<Rightarrow> pyexn + int" where
  "py_int E PNone = Inl TypeError"
| "py_int E (PBool b) = Inr (if b then 1 else 0)"
| "py_int E (PInt i) = Inr i"
| "py_int E (PFloat r) = Inr (if r < 0 then \<lceil>r\<rceil> else \<lfloor>r\<rfloor>)"
| "py_int E (PStr s) =
     (case int_of_str E s of None \<Rightarrow> Inl ValueError | Some i \<Rightarrow> Inr i)"
| "py_int E (PList xs) = Inl TypeError"
| "py_int E (PDict kvs) = Inl TypeError"

section \<open>The database\<close>

text \<open>
  The schema is not part of the repository; the tables carry the columns the SQL text of
  the two files names. \<open>flight_id\<close> is the key of \<open>flights\<close>, so the table is a map
  from it. A row of \<open>passengers\<close> or \<open>reservations\<close> holds the values the statement
  bound, its generated key first.
\<close>

record flight =
  airline_id :: pyval
  flight_number :: pyval
  departure_airport :: pyval
  arrival_airport :: pyval
  departure_datetime :: pyval
  seats_available :: int

record passenger =
  passenger_id :: int
  full_name :: pyval
  age :: pyval
  gender :: pyval
  email :: pyval

record reservation =
  reservation_id :: int
  r_flight_id :: pyval
  r_passenger_id :: pyval
  seat_number :: pyval
  travel_class :: pyval
  price :: real

record airline =
  a_airline_id :: int
  name :: pyval
  code :: pyval

record tables =
  passengers :: "passenger list"
  flights :: "int \<rightharpoonup> flight"
  reservations :: "reservation list"
  airlines :: "airline list"

text \<open>
  The server: the committed tables, the two \<^verbatim>\<open>AUTO_INCREMENT\<close> counters (which a
  rollback does not wind back) and the transactions whose connection the code left
  without commit, rollback or close.
\<close>

record server =
  committed :: tables
  passenger_seq :: int
  reservation_seq :: int
  dangling :: "tables list"

text \<open>
  A connection with its cursor: the server behind it, the tables as the open transaction
  sees them, and \<^verbatim>\<open>cur.lastrowid\<close>.
\<close>

record conn =
  srv :: server
  pending :: tables
  lastrowid :: pyval

text \<open>
  Storage failures are injected: a fault plan says which statements of a call raise.
\<close>

datatype stmt = Connect | InsertPassenger | SelectSeats | InsertReservation | UpdateSeats | Commit

type_synonym faults = "stmt \<Rightarrow> bool"

definition get_db :: "faults \<Rightarrow> server \<Rightarrow> pyexn + conn" where
  "get_db flt s =
     (if flt Connect then Inl DatabaseError
      else Inr \<lparr>srv = s, pending = committed s, lastrowid = PNone\<rparr>)"

text \<open>The connector turns each bound value into an SQL literal; it has none for a list or a dict.\<close>

fun bindable :: "pyval \<Rightarrow> bool" where
  "bindable (PList xs) = False"
| "bindable (PDict kvs) = False"
| "bindable v = True"

text \<open>
  The key that \<^verbatim>\<open>WHERE flight_id = %s\<close> selects for a bound value: MySQL compares
  numerically, \<^verbatim>\<open>NULL\<close> equals nothing.
\<close>

definition int_of_real :: "real \<Rightarrow> int option" where
  "int_of_real r = (if of_int \<lfloor>r\<rfloor> = r then Some \<lfloor>r\<rfloor> else None)"

fun sql_key :: "extern \<Rightarrow> pyval \<Rightarrow> int option" where
  "sql_key E PNone = None"
| "sql_key E (PBool b) = Some (if b then 1 else 0)"
| "sql_key E (PInt i) = Some i"
| "sql_key E (PFloat r) = int_of_real r"
| "sql_key E (PStr s) = int_of_real (sql_num_of_str E s)"
| "sql_key E (PList xs) = None"
| "sql_key E (PDict kvs) = None"

text \<open>\<^verbatim>\<open>INSERT INTO passengers (full_name, age, gender, email) VALUES (%s,%s,%s,%s)\<close>\<close>

definition insert_passenger :: "faults \<Rightarrow> pyval \<Rightarrow> pyval \<Rightarrow> pyval \<Rightarrow> pyval \<Rightarrow> conn \<Rightarrow> pyexn + conn" where
  "insert_passenger flt n a g e c =
     (if \<not> (bindable n \<and> bindable a \<and> bindable g \<and> bindable e) then Inl ProgrammingError
      else if flt InsertPassenger then Inl DatabaseError
      else let i = passenger_seq (srv c) in
        Inr (c\<lparr>srv := (srv c)\<lparr>passenger_seq := i + 1\<rparr>,
               pending := (pending c)\<lparr>passengers := passengers (pending c) @
                 [\<lparr>passenger_id = i, full_name = n, age = a, gender = g, email = e\<rparr>]\<rparr>,
               lastrowid := PInt i\<rparr>))"

text \<open>
  \<^verbatim>\<open>SELECT seats_available FROM flights WHERE flight_id = %s\<close>, with or without
  \<^verbatim>\<open>FOR UPDATE\<close>, followed by \<^verbatim>\<open>fetchone()\<close>: the counter of the row, or \<open>None\<close>.
\<close>

definition select_seats :: "extern \<Rightarrow> faults \<Rightarrow> pyval \<Rightarrow> conn \<Rightarrow> pyexn + int option" where
  "select_seats E flt fid c =
     (if \<not> bindable fid then Inl ProgrammingError
      else if flt SelectSeats then Inl DatabaseError
      else Inr (case sql_key E fid of None \<Rightarrow> None
                | Some k \<Rightarrow> map_option seats_available (flights (pending c) k)))"

text \<open>
  \<^verbatim>\<open>INSERT INTO reservations (flight_id, passenger_id, seat_number, travel_class, price)
  VALUES (%s,%s,%s,%s,%s)\<close>
\<close>

definition insert_reservation :: "faults \<Rightarrow> pyval \<Rightarrow> pyval \<Rightarrow> pyval \<Rightarrow> pyval \<Rightarrow> real \<Rightarrow> conn \<Rightarrow> pyexn + conn" where
  "insert_reservation flt fid pid seat cls pr c =
     (if \<not> (bindable fid \<and> bindable pid \<and> bindable seat \<and> bindable cls) then Inl ProgrammingError
      else if flt InsertReservation then Inl DatabaseError
      else let i = reservation_seq (srv c) in
        Inr (c\<lparr>srv := (srv c)\<lparr>reservation_seq := i + 1\<rparr>,
               pending := (pending c)\<lparr>reservations := reservations (pending c) @
                 [\<lparr>reservation_id = i, r_flight_id = fid, r_passenger_id = pid,
                   seat_number = seat, travel_class = cls, price = pr\<rparr>]\<rparr>,
               lastrowid := PInt i\<rparr>))"

text \<open>
  \<^verbatim>\<open>UPDATE flights SET seats_available = seats_available - 1 WHERE flight_id = %s\<close>.
  The statement generates no key, so it leaves \<^verbatim>\<open>lastrowid\<close> at 0.
\<close>

definition decrement :: "int \<Rightarrow> tables \<Rightarrow> tables" where
  "decrement k t =
     (case flights t k of None \<Rightarrow> t
      | Some f \<Rightarrow> t\<lparr>flights := (flights t)(k \<mapsto> f\<lparr>seats_available := seats_available f - 1\<rparr>)\<rparr>)"

definition update_seats :: "extern \<Rightarrow> faults \<Rightarrow> pyval \<Rightarrow> conn \<Rightarrow> pyexn + conn" where
  "update_seats E flt fid c =
     (if \<not> bindable fid then Inl ProgrammingError
      else if flt UpdateSeats then Inl DatabaseError
      else Inr (c\<lparr>pending := (case sql_key E fid of None \<Rightarrow> pending c
                               | Some k \<Rightarrow> decrement k (pending c)),
                  lastrowid := PInt 0\<rparr>))"

text \<open>
  \<^verbatim>\<open>cnx.commit()\<close> makes the transaction's tables the committed ones;
  \<^verbatim>\<open>cnx.rollback(); cnx.close()\<close> drops them. Neither \<^verbatim>\<open>rollback\<close> nor
  \<^verbatim>\<open>close\<close> is taken to fail.
\<close>

definition commit :: "faults \<Rightarrow> conn \<Rightarrow> pyexn + server" where
  "commit flt c =
     (if flt Commit then Inl DatabaseError else Inr ((srv c)\<lparr>committed := pending c\<rparr>))"

definition rollback_close :: "conn \<Rightarrow> server" where
  "rollback_close c = srv c"

text \<open>A connection that goes out of scope with its transaction open.\<close>

definition abandon :: "conn \<Rightarrow> server" where
  "abandon c = (srv c)\<lparr>dangling := dangling (srv c) @ [pending c]\<rparr>"

section \<open>The HTTP handler \<open>book\<close>\<close>

text \<open>
  A response is the JSON body given to \<^verbatim>\<open>jsonify\<close> and the status code
  (200 where the code gives none). \<open>ErrorExn e\<close> is the body
  \<^verbatim>\<open>{"error": str(e)}\<close>. An exception that leaves the handler is the \<open>Inl\<close> result.
\<close>

datatype body = ErrorBody string | ErrorExn pyexn | StatusBody string

type_synonym response = "body \<times> nat"

record request =
  rq_passenger :: pyval
  rq_flight_id :: pyval
  rq_seat_number :: pyval
  rq_travel_class :: pyval
  rq_price :: real

text \<open>
  Lines 52 to 60: the fields are read from the payload, the price is converted, and only
  then are the name and the flight id tested. \<open>Inr (Inl r)\<close> is the early return.
\<close>

definition book_request :: "extern \<Rightarrow> pyval \<Rightarrow> pyexn + (response + request)" where
  "book_request E payload =
     (case py_get payload ''passenger'' (PDict []) of Inl e \<Rightarrow> Inl e | Inr p \<Rightarrow>
     (case py_get payload ''flight_id'' PNone of Inl e \<Rightarrow> Inl e | Inr flight_id \<Rightarrow>
     (case py_get payload ''seat_number'' PNone of Inl e \<Rightarrow> Inl e | Inr seat \<Rightarrow>
     (case py_get payload ''travel_class'' (PStr ''Economy'') of Inl e \<Rightarrow> Inl e | Inr cls \<Rightarrow>
     (case py_get payload ''price'' (PFloat 0) of Inl e \<Rightarrow> Inl e | Inr pr \<Rightarrow>
     (case py_float E pr of Inl e \<Rightarrow> Inl e | Inr x \<Rightarrow>
     (case py_get p ''full_name'' PNone of Inl e \<Rightarrow> Inl e | Inr nm \<Rightarrow>
        if \<not> truthy nm \<or> \<not> truthy flight_id
        then Inr (Inl (ErrorBody ''missing passenger name or flight_id'', 400))
        else Inr (Inr \<lparr>rq_passenger = p, rq_flight_id = flight_id, rq_seat_number = seat,
                       rq_travel_class = cls, rq_price = x\<rparr>))))))))"

text \<open>Lines 83 to 85: the handler of the \<^verbatim>\<open>try\<close> block.\<close>

definition book_except :: "pyexn \<Rightarrow> conn \<Rightarrow> (pyexn + response) \<times> server" where
  "book_except e c = (Inr (ErrorExn e, 500), rollback_close c)"

text \<open>Lines 62 to 82; \<^verbatim>\<open>get_db()\<close> is called before the \<^verbatim>\<open>try\<close>.\<close>

definition book_txn :: "extern \<Rightarrow> faults \<Rightarrow> request \<Rightarrow> server \<Rightarrow> (pyexn + response) \<times> server" where
  "book_txn E flt rq s =
     (case get_db flt s of Inl e \<Rightarrow> (Inl e, s) | Inr c0 \<Rightarrow>
     (case py_get (rq_passenger rq) ''full_name'' PNone of
        Inl e \<Rightarrow> book_except e c0 | Inr nm \<Rightarrow>
     (case py_get (rq_passenger rq) ''age'' PNone of
        Inl e \<Rightarrow> book_except e c0 | Inr ag \<Rightarrow>
     (case py_get (rq_passenger rq) ''gender'' PNone of
        Inl e \<Rightarrow> book_except e c0 | Inr gd \<Rightarrow>
     (case py_get (rq_passenger rq) ''email'' PNone of
        Inl e \<Rightarrow> book_except e c0 | Inr em \<Rightarrow>
     (case insert_passenger flt nm ag gd em c0 of Inl e \<Rightarrow> book_except e c0 | Inr c1 \<Rightarrow>
        let passenger_id = lastrowid c1 in
     (case select_seats E flt (rq_flight_id rq) c1 of
        Inl e \<Rightarrow> book_except e c1
      | Inr None \<Rightarrow> (Inr (ErrorBody ''flight not found'', 404), rollback_close c1)
      | Inr (Some res0) \<Rightarrow>
          if res0 \<le> 0 then (Inr (ErrorBody ''no seats available'', 400), rollback_close c1)
          else
     (case insert_reservation flt (rq_flight_id rq) passenger_id (rq_seat_number rq)
             (rq_travel_class rq) (rq_price rq) c1 of
        Inl e \<Rightarrow> book_except e c1 | Inr c2 \<Rightarrow>
     (case update_seats E flt (rq_flight_id rq) c2 of
        Inl e \<Rightarrow> book_except e c2 | Inr c3 \<Rightarrow>
     (case commit flt c3 of
        Inl e \<Rightarrow> book_except e c3
      | Inr s' \<Rightarrow> (Inr (StatusBody ''booked'', 200), s')))))))))))"

definition book :: "extern \<Rightarrow> faults \<Rightarrow> pyval \<Rightarrow> server \<Rightarrow> (pyexn + response) \<times> server" where
  "book E flt payload s =
     (case book_request E payload of
        Inl e \<Rightarrow> (Inl e, s)
      | Inr (Inl r) \<Rightarrow> (Inr r, s)
      | Inr (Inr rq) \<Rightarrow> book_txn E flt rq s)"

section \<open>The form callback \<open>book_ticket\<close>\<close>

text \<open>
  The function returns a text; the constructors stand for its four shapes and carry the
  value the f-string interpolates. Its \<^verbatim>\<open>except\<close> clause returns without
  \<^verbatim>\<open>rollback\<close> or \<^verbatim>\<open>close\<close>.
\<close>

datatype message =
    FlightNotFound pyval
  | NoSeatsAvailable
  | BookingSuccessful pyval
  | ErrorMessage pyexn

text \<open>The two computed arguments: \<^verbatim>\<open>int(age) if age else None\<close> and
  \<^verbatim>\<open>float(price) if price else 0.0\<close>.\<close>

definition age_arg :: "extern \<Rightarrow> pyval \<Rightarrow> pyexn + pyval" where
  "age_arg E a = (if truthy a then map_sum id PInt (py_int E a) else Inr PNone)"

definition price_arg :: "extern \<Rightarrow> pyval \<Rightarrow> pyexn + real" where
  "price_arg E pr = (if truthy pr then py_float E pr else Inr 0)"

definition book_ticket ::
  "extern \<Rightarrow> faults \<Rightarrow> pyval \<Rightarrow> pyval \<Rightarrow> pyval \<Rightarrow> pyval \<Rightarrow> pyval \<Rightarrow> pyval \<Rightarrow> pyval \<Rightarrow> pyval
     \<Rightarrow> server \<Rightarrow> message \<times> server" where
  "book_ticket E flt passenger_name age0 gender0 email0 flight_id seat travel_cls price0 s =
     (case get_db flt s of Inl e \<Rightarrow> (ErrorMessage e, s) | Inr c0 \<Rightarrow>
     (case age_arg E age0 of
        Inl e \<Rightarrow> (ErrorMessage e, abandon c0) | Inr ag \<Rightarrow>
     (case insert_passenger flt passenger_name ag gender0 email0 c0 of
        Inl e \<Rightarrow> (ErrorMessage e, abandon c0) | Inr c1 \<Rightarrow>
        let passenger_id = lastrowid c1 in
     (case select_seats E flt flight_id c1 of
        Inl e \<Rightarrow> (ErrorMessage e, abandon c1)
      | Inr None \<Rightarrow> (FlightNotFound flight_id, rollback_close c1)
      | Inr (Some seats) \<Rightarrow>
          if seats \<le> 0 then (NoSeatsAvailable, rollback_close c1)
          else
     (case price_arg E price0 of
        Inl e \<Rightarrow> (ErrorMessage e, abandon c1) | Inr x \<Rightarrow>
     (case insert_reservation flt flight_id passenger_id seat travel_cls x c1 of
        Inl e \<Rightarrow> (ErrorMessage e, abandon c1) | Inr c2 \<Rightarrow>
     (case update_seats E flt flight_id c2 of
        Inl e \<Rightarrow> (ErrorMessage e, abandon c2) | Inr c3 \<Rightarrow>
     (case commit flt c3 of
        Inl e \<Rightarrow> (ErrorMessage e, abandon c3)
      | Inr s' \<Rightarrow> (BookingSuccessful (lastrowid c3), s')))))))))"

section \<open>Sequences of booking calls\<close>

text \<open>
  Calls that are served one after the other: each starts from the server the previous one
  left. A call is a function with its arguments and the fault plan of its statements.
\<close>

datatype call =
    Book faults pyval
  | BookTicket faults pyval pyval pyval pyval pyval pyval pyval pyval

fun exec_call :: "extern \<Rightarrow> call \<Rightarrow> server \<Rightarrow> server" where
  "exec_call E (Book flt payload) s = snd (book E flt payload s)"
| "exec_call E (BookTicket flt n a g e fid seat cls pr) s =
     snd (book_ticket E flt n a g e fid seat cls pr s)"

fun run :: "extern \<Rightarrow> call list \<Rightarrow> server \<Rightarrow> server" where
  "run E [] s = s"
| "run E (c # cs) s = run E cs (exec_call E c s)"

section \<open>Notions used by the properties\<close>

text \<open>The two results that report a committed booking.\<close>

definition is_booked :: "pyexn + response \<Rightarrow> bool" where
  "is_booked r \<longleftrightarrow> r = Inr (StatusBody ''booked'', 200)"

fun is_successful :: "message \<Rightarrow> bool" where
  "is_successful (BookingSuccessful i) = True"
| "is_successful _ = False"

text \<open>
  A reservation refers to flight \<open>k\<close> when its \<open>flight_id\<close> compares equal to \<open>k\<close>,
  as in \<^verbatim>\<open>JOIN flights f ON r.flight_id = f.flight_id\<close>. \<open>ledger_total\<close> is the
  remaining seats of a flight plus the reservations that refer to it.
\<close>

definition reserved :: "extern \<Rightarrow> tables \<Rightarrow> int \<Rightarrow> nat" where
  "reserved E t k = length (filter (\<lambda>r. sql_key E (r_flight_id r) = Some k) (reservations t))"

definition ledger_total :: "extern \<Rightarrow> tables \<Rightarrow> int \<Rightarrow> int option" where
  "ledger_total E t k =
     map_option (\<lambda>f. seats_available f + int (reserved E t k)) (flights t k)"

text \<open>The row a bound \<open>flight_id\<close> selects, and the flight a request names.\<close>

definition find_flight :: "extern \<Rightarrow> pyval \<Rightarrow> tables \<Rightarrow> flight option" where
  "find_flight E fid t = (case sql_key E fid of None \<Rightarrow> None | Some k \<Rightarrow> flights t k)"

text \<open>The four passenger fields of a request can be bound to the \<^verbatim>\<open>INSERT\<close>.\<close>

definition passenger_bindable :: "pyval \<Rightarrow> bool" where
  "passenger_bindable p =
     (case p of
        PDict pk \<Rightarrow> list_all (\<lambda>key. bindable (dict_get pk key PNone))
                      [''full_name'', ''age'', ''gender'', ''email'']
      | _ \<Rightarrow> False)"

definition requested_flight :: "extern \<Rightarrow> pyval \<Rightarrow> int option" where
  "requested_flight E payload =
     (case py_get payload ''flight_id'' PNone of Inl e \<Rightarrow> None | Inr fid \<Rightarrow> sql_key E fid)"

text \<open>
  What a committed booking does to the tables: one passenger and one reservation are
  appended, and the counter of the flight that was found positive goes down by one.
\<close>

definition books :: "extern \<Rightarrow> pyval \<Rightarrow> real \<Rightarrow> tables \<Rightarrow> tables \<Rightarrow> bool" where
  "books E fid x t t' \<longleftrightarrow>
     (\<exists>k f. sql_key E fid = Some k \<and> flights t k = Some f \<and> 0 < seats_available f \<and>
        flights t' = (flights t)(k \<mapsto> f\<lparr>seats_available := seats_available f - 1\<rparr>)) \<and>
     (\<exists>P. passengers t' = passengers t @ [P]) \<and>
     (\<exists>R. reservations t' = reservations t @ [R] \<and> r_flight_id R = fid \<and> price R = x) \<and>
     airlines t' = airlines t"

subsection \<open>Example data\<close>

text \<open>
  Flight 42 with \<open>n\<close> seats left and no reservation, a request for it, and a world in
  which no string is a number.
\<close>

definition demo_extern :: extern where
  "demo_extern = \<lparr>float_of_str = (\<lambda>s. None), int_of_str = (\<lambda>s. None), sql_num_of_str = (\<lambda>s. 0)\<rparr>"

definition demo_flight :: "int \<Rightarrow> flight" where
  "demo_flight n =
     \<lparr>airline_id = PInt 1, flight_number = PStr ''AI101'', departure_airport = PStr ''DEL'',
      arrival_airport = PStr ''BOM'', departure_datetime = PStr ''2025-01-01 10:00:00'',
      seats_available = n\<rparr>"

definition demo_server :: "int \<Rightarrow> server" where
  "demo_server n =
     \<lparr>committed = \<lparr>passengers = [], flights = [42 \<mapsto> demo_flight n], reservations = [],
                   airlines = []\<rparr>,
      passenger_seq = 1, reservation_seq = 1, dangling = []\<rparr>"

definition demo_payload :: "pyval \<Rightarrow> pyval" where
  "demo_payload pr =
     PDict [(''passenger'', PDict [(''full_name'', PStr ''Jane Doe'')]), (''flight_id'', PInt 42),
            (''seat_number'', PStr ''12A''), (''travel_class'', PStr ''Business''),
            (''price'', pr)]"

definition no_faults :: faults where
  "no_faults = (\<lambda>st. False)"

definition fault_at :: "stmt \<Rightarrow> faults" where
  "fault_at st = (\<lambda>st'. st' = st)"

text \<open>The form filled in for a passenger of the given name, flight and price.\<close>

definition demo_ticket :: "faults \<Rightarrow> pyval \<Rightarrow> pyval \<Rightarrow> pyval \<Rightarrow> server \<Rightarrow> message \<times> server" where
  "demo_ticket flt nm fid pr s =
     book_ticket demo_extern flt nm (PInt 30) (PStr ''Female'') (PStr ''jane@example.org'') fid
       (PStr ''12A'') (PStr ''Business'') pr s"

definition demo_calls :: "call list" where
  "demo_calls =
     [Book no_faults (demo_payload (PFloat 150)),
      BookTicket no_faults (PStr ''John Roe'') (PInt 41) (PStr ''Male'') PNone (PInt 42)
        (PStr ''12B'') (PStr ''Economy'') (PInt 90)]"

section \<open>Concurrent calls\<close>

text \<open>
  Calls that run at the same time meet in the database: each has its own connection and
  transaction, and the server interleaves their statements. The model below takes what
  the two functions rely on from MySQL with InnoDB at its default isolation level
  (\<^verbatim>\<open>REPEATABLE READ\<close>), and nothing more:
  \<^item> a statement is one step; the rows a transaction inserts and the flight row it
    updates stay its own until it commits;
  \<^item> \<^verbatim>\<open>SELECT ... FOR UPDATE\<close> and \<^verbatim>\<open>UPDATE\<close> need the exclusive lock of the row
    they touch, read its last committed version and keep the lock until the transaction
    ends; a statement that needs a lock another transaction holds waits;
  \<^item> a plain \<^verbatim>\<open>SELECT\<close> takes no lock and reads the committed row;
  \<^item> \<^verbatim>\<open>seats_available\<close> is a signed column without a check constraint, as none is
    visible in the repository.
  Storage failures are left out here. A session is one call past its argument handling:
  \<open>Handler\<close> for \<open>book\<close>, \<open>Form\<close> for \<open>book_ticket\<close>, which differ in the
  \<^verbatim>\<open>SELECT\<close> they issue and in where the arguments are converted.
\<close>

datatype origin = Handler | Form

datatype outcome = Booked | NotFound | SoldOut | Failed pyexn

datatype point = AtInsertPassenger | AtSelect | AtInsertReservation | AtUpdate | AtCommit
  | Finished outcome

record session =
  origin :: origin
  a_name :: pyval
  a_age :: "pyexn + pyval"
  a_gender :: pyval
  a_email :: pyval
  a_flight_id :: pyval
  a_seat :: pyval
  a_class :: pyval
  a_price :: "pyexn + real"
  pc :: point
  got_id :: pyval
  new_passengers :: "passenger list"
  new_reservations :: "reservation list"
  new_flights :: "int \<rightharpoonup> flight"

record world =
  store :: tables
  next_passenger :: int
  next_reservation :: int
  row_lock :: "int \<rightharpoonup> nat"
  sessions :: "session list"

text \<open>The session of a validated request of \<open>book\<close>, and of a call of \<open>book_ticket\<close>.\<close>

definition handler_session :: "request \<Rightarrow> session" where
  "handler_session rq =
     (let field = (\<lambda>key. case py_get (rq_passenger rq) key PNone of Inl e \<Rightarrow> PNone | Inr v \<Rightarrow> v) in
      \<lparr>origin = Handler, a_name = field ''full_name'', a_age = Inr (field ''age''),
       a_gender = field ''gender'', a_email = field ''email'', a_flight_id = rq_flight_id rq,
       a_seat = rq_seat_number rq, a_class = rq_travel_class rq, a_price = Inr (rq_price rq),
       pc = AtInsertPassenger, got_id = PNone, new_passengers = [], new_reservations = [],
       new_flights = Map.empty\<rparr>)"

definition form_session ::
  "extern \<Rightarrow> pyval \<Rightarrow> pyval \<Rightarrow> pyval \<Rightarrow> pyval \<Rightarrow> pyval \<Rightarrow> pyval \<Rightarrow> pyval \<Rightarrow> pyval \<Rightarrow> session" where
  "form_session E nm ag gd em fid seat cls pr =
     \<lparr>origin = Form, a_name = nm, a_age = age_arg E ag, a_gender = gd, a_email = em,
      a_flight_id = fid, a_seat = seat, a_class = cls, a_price = price_arg E pr,
      pc = AtInsertPassenger, got_id = PNone, new_passengers = [], new_reservations = [],
      new_flights = Map.empty\<rparr>"

definition start_world :: "server \<Rightarrow> session list \<Rightarrow> world" where
  "start_world s ss =
     \<lparr>store = committed s, next_passenger = passenger_seq s,
      next_reservation = reservation_seq s, row_lock = Map.empty, sessions = ss\<rparr>"

text \<open>
  The end of a session, by return after \<^verbatim>\<open>rollback\<close> and \<^verbatim>\<open>close\<close> or by an
  exception: its connection is gone, so its locks are free and its rows are dropped.
\<close>

definition release :: "nat \<Rightarrow> (int \<rightharpoonup> nat) \<Rightarrow> (int \<rightharpoonup> nat)" where
  "release i lk = (\<lambda>k. if lk k = Some i then None else lk k)"

definition finish :: "nat \<Rightarrow> outcome \<Rightarrow> world \<Rightarrow> world" where
  "finish i out w =
     w\<lparr>row_lock := release i (row_lock w),
       sessions := (sessions w)[i := (sessions w ! i)\<lparr>pc := Finished out\<rparr>]\<rparr>"

text \<open>Whether session \<open>i\<close> may take the lock of row \<open>k\<close>.\<close>

definition lock_free :: "nat \<Rightarrow> int \<Rightarrow> world \<Rightarrow> bool" where
  "lock_free i k w = (case row_lock w k of None \<Rightarrow> True | Some j \<Rightarrow> j = i)"

definition step_insert_passenger :: "nat \<Rightarrow> session \<Rightarrow> world \<Rightarrow> world" where
  "step_insert_passenger i s w =
     (case a_age s of
        Inl e \<Rightarrow> finish i (Failed e) w
      | Inr ag \<Rightarrow>
          if \<not> (bindable (a_name s) \<and> bindable ag \<and> bindable (a_gender s) \<and> bindable (a_email s))
          then finish i (Failed ProgrammingError) w
          else w\<lparr>next_passenger := next_passenger w + 1,
                 sessions := (sessions w)[i := s\<lparr>pc := AtSelect, got_id := PInt (next_passenger w),
                   new_passengers := new_passengers s @
                     [\<lparr>passenger_id = next_passenger w, full_name = a_name s, age = ag,
                       gender = a_gender s, email = a_email s\<rparr>]\<rparr>]\<rparr>)"

definition step_select :: "extern \<Rightarrow> nat \<Rightarrow> session \<Rightarrow> world \<Rightarrow> world" where
  "step_select E i s w =
     (if \<not> bindable (a_flight_id s) then finish i (Failed ProgrammingError) w
      else case find_flight E (a_flight_id s) (store w) of
        None \<Rightarrow> finish i NotFound w
      | Some f \<Rightarrow>
          (case sql_key E (a_flight_id s) of
             None \<Rightarrow> finish i NotFound w
           | Some k \<Rightarrow>
               if origin s = Handler \<and> \<not> lock_free i k w then w
               else if seats_available f \<le> 0 then finish i SoldOut w
               else w\<lparr>row_lock := (if origin s = Handler then (row_lock w)(k \<mapsto> i) else row_lock w),
                      sessions := (sessions w)[i := s\<lparr>pc := AtInsertReservation\<rparr>]\<rparr>))"

definition step_insert_reservation :: "nat \<Rightarrow> session \<Rightarrow> world \<Rightarrow> world" where
  "step_insert_reservation i s w =
     (case a_price s of
        Inl e \<Rightarrow> finish i (Failed e) w
      | Inr x \<Rightarrow>
          if \<not> (bindable (a_flight_id s) \<and> bindable (got_id s) \<and> bindable (a_seat s) \<and>
                 bindable (a_class s))
          then finish i (Failed ProgrammingError) w
          else w\<lparr>next_reservation := next_reservation w + 1,
                 sessions := (sessions w)[i := s\<lparr>pc := AtUpdate,
                   new_reservations := new_reservations s @
                     [\<lparr>reservation_id = next_reservation w, r_flight_id = a_flight_id s,
                       r_passenger_id = got_id s, seat_number = a_seat s,
                       travel_class = a_class s, price = x\<rparr>]\<rparr>]\<rparr>)"

definition step_update :: "extern \<Rightarrow> nat \<Rightarrow> session \<Rightarrow> world \<Rightarrow> world" where
  "step_update E i s w =
     (if \<not> bindable (a_flight_id s) then finish i (Failed ProgrammingError) w
      else case sql_key E (a_flight_id s) of
        None \<Rightarrow> w\<lparr>sessions := (sessions w)[i := s\<lparr>pc := AtCommit\<rparr>]\<rparr>
      | Some k \<Rightarrow>
          (case flights (store w) k of
             None \<Rightarrow> w\<lparr>sessions := (sessions w)[i := s\<lparr>pc := AtCommit\<rparr>]\<rparr>
           | Some f \<Rightarrow>
               if \<not> lock_free i k w then w
               else w\<lparr>row_lock := (row_lock w)(k \<mapsto> i),
                      sessions := (sessions w)[i := s\<lparr>pc := AtCommit,
                        new_flights := (new_flights s)
                          (k \<mapsto> f\<lparr>seats_available := seats_available f - 1\<rparr>)\<rparr>]\<rparr>))"

definition step_commit :: "nat \<Rightarrow> session \<Rightarrow> world \<Rightarrow> world" where
  "step_commit i s w =
     w\<lparr>store := (store w)\<lparr>passengers := passengers (store w) @ new_passengers s,
                           reservations := reservations (store w) @ new_reservations s,
                           flights := flights (store w) ++ new_flights s\<rparr>,
       row_lock := release i (row_lock w),
       sessions := (sessions w)[i := s\<lparr>pc := Finished Booked\<rparr>]\<rparr>"

text \<open>
  One step of session \<open>i\<close>: its next statement. A finished session, a waiting one and a
  number that names no session leave the world as it is.
\<close>

definition step :: "extern \<Rightarrow> nat \<Rightarrow> world \<Rightarrow> world" where
  "step E i w =
     (if i < length (sessions w) then
        (let s = sessions w ! i in
         case pc s of
           AtInsertPassenger \<Rightarrow> step_insert_passenger i s w
         | AtSelect \<Rightarrow> step_select E i s w
         | AtInsertReservation \<Rightarrow> step_insert_reservation i s w
         | AtUpdate \<Rightarrow> step_update E i s w
         | AtCommit \<Rightarrow> step_commit i s w
         | Finished out \<Rightarrow> w)
      else w)"

text \<open>A schedule names the session that moves next.\<close>

fun sched :: "extern \<Rightarrow> nat list \<Rightarrow> world \<Rightarrow> world" where
  "sched E [] w = w"
| "sched E (i # is) w = sched E is (step E i w)"

text \<open>The sessions that ended with a booking of flight \<open>k\<close>.\<close>

definition booked_on :: "extern \<Rightarrow> int \<Rightarrow> session \<Rightarrow> bool" where
  "booked_on E k s \<longleftrightarrow> pc s = Finished Booked \<and> sql_key E (a_flight_id s) = Some k"

definition successes :: "extern \<Rightarrow> int \<Rightarrow> world \<Rightarrow> nat" where
  "successes E k w = length (filter (booked_on E k) (sessions w))"

text \<open>The outcome a sequential call would report, for comparison with a session alone.\<close>

fun outcome_of :: "message \<Rightarrow> outcome" where
  "outcome_of (FlightNotFound v) = NotFound"
| "outcome_of NoSeatsAvailable = SoldOut"
| "outcome_of (BookingSuccessful v) = Booked"
| "outcome_of (ErrorMessage e) = Failed e"

fun response_outcome :: "pyexn + response \<Rightarrow> outcome" where
  "response_outcome (Inl e) = Failed e"
| "response_outcome (Inr (StatusBody m, c)) = Booked"
| "response_outcome (Inr (ErrorExn e, c)) = Failed e"
| "response_outcome (Inr (ErrorBody m, c)) = (if c = 404 then NotFound else SoldOut)"

text \<open>
  The invariant of worlds in which every session comes from \<open>book\<close>, for a flight
  \<open>k\<close> that started with \<open>N\<close> seats: the counter is not negative and makes up \<open>N\<close>
  together with the bookings done, and a session that is past its \<^verbatim>\<open>SELECT ... FOR
  UPDATE\<close> on \<open>k\<close> holds the lock of the row, whose committed counter is positive.
\<close>

definition critical :: "point \<Rightarrow> bool" where
  "critical p \<longleftrightarrow> p = AtInsertReservation \<or> p = AtUpdate \<or> p = AtCommit"

definition sess_ok :: "extern \<Rightarrow> int \<Rightarrow> world \<Rightarrow> nat \<Rightarrow> session \<Rightarrow> bool" where
  "sess_ok E k w i s \<longleftrightarrow>
     origin s = Handler \<and>
     (if sql_key E (a_flight_id s) = Some k
      then (critical (pc s) \<longrightarrow>
              row_lock w k = Some i \<and>
              (\<exists>f. flights (store w) k = Some f \<and> 0 < seats_available f \<and>
                 (pc s = AtCommit \<longrightarrow>
                    new_flights s k = Some (f\<lparr>seats_available := seats_available f - 1\<rparr>))))
      else new_flights s k = None)"

definition ledger_inv :: "extern \<Rightarrow> int \<Rightarrow> int \<Rightarrow> world \<Rightarrow> bool" where
  "ledger_inv E k N w \<longleftrightarrow>
     (\<exists>f. flights (store w) k = Some f \<and> 0 \<le> seats_available f \<and>
          seats_available f + int (successes E k w) = N) \<and>
     (\<forall>i < length (sessions w). sess_ok E k w i (sessions w ! i))"

text \<open>Two calls for flight 42 that arrive together.\<close>

definition demo_forms :: "session list" where
  "demo_forms =
     [form_session demo_extern (PStr ''Jane Doe'') (PInt 30) (PStr ''Female'') PNone (PInt 42)
        (PStr ''12A'') (PStr ''Business'') (PFloat 150),
      form_session demo_extern (PStr ''John Roe'') (PInt 41) (PStr ''Male'') PNone (PInt 42)
        (PStr ''12B'') (PStr ''Economy'') (PInt 90)]"

definition demo_handlers :: "session list" where
  "demo_handlers =
     [handler_session \<lparr>rq_passenger = PDict [(''full_name'', PStr ''Jane Doe'')],
        rq_flight_id = PInt 42, rq_seat_number = PStr ''12A'',
        rq_travel_class = PStr ''Business'', rq_price = 150\<rparr>,
      handler_session \<lparr>rq_passenger = PDict [(''full_name'', PStr ''John Roe'')],
        rq_flight_id = PInt 42, rq_seat_number = PStr ''12B'',
        rq_travel_class = PStr ''Economy'', rq_price = 90\<rparr>]"

text \<open>The first request through \<open>book\<close>, the second through \<open>book_ticket\<close>.\<close>

definition demo_mixed :: "session list" where
  "demo_mixed = [demo_handlers ! 0, demo_forms ! 1]"

section \<open>What each statement does\<close>

lemma get_db_Inr: "get_db flt s = Inr c \<Longrightarrow> srv c = s \<and> pending c = committed s"
  by (auto simp: get_db_def split: if_splits)

lemma insert_passenger_Inr:
  "insert_passenger flt n a g e c = Inr c' \<Longrightarrow>
     committed (srv c') = committed (srv c) \<and>
     pending c' = (pending c)\<lparr>passengers := passengers (pending c) @
        [\<lparr>passenger_id = passenger_seq (srv c), full_name = n, age = a, gender = g, email = e\<rparr>]\<rparr> \<and>
     lastrowid c' = PInt (passenger_seq (srv c))"
  by (auto simp: insert_passenger_def Let_def split: if_splits)

lemma select_seats_Inr:
  "select_seats E flt fid c = Inr r \<Longrightarrow>
     r = (case sql_key E fid of None \<Rightarrow> None
          | Some k \<Rightarrow> map_option seats_available (flights (pending c) k))"
  by (auto simp: select_seats_def split: if_splits)

lemma insert_reservation_Inr:
  "insert_reservation flt fid pid seat cls x c = Inr c' \<Longrightarrow>
     committed (srv c') = committed (srv c) \<and>
     pending c' = (pending c)\<lparr>reservations := reservations (pending c) @
        [\<lparr>reservation_id = reservation_seq (srv c), r_flight_id = fid, r_passenger_id = pid,
          seat_number = seat, travel_class = cls, price = x\<rparr>]\<rparr> \<and>
     lastrowid c' = PInt (reservation_seq (srv c))"
  by (auto simp: insert_reservation_def Let_def split: if_splits)

lemma update_seats_Inr:
  "update_seats E flt fid c = Inr c' \<Longrightarrow>
     srv c' = srv c \<and>
     pending c' = (case sql_key E fid of None \<Rightarrow> pending c | Some k \<Rightarrow> decrement k (pending c)) \<and>
     lastrowid c' = PInt 0"
  by (auto simp: update_seats_def split: if_splits)

lemma commit_Inr: "commit flt c = Inr s' \<Longrightarrow> committed s' = pending c"
  by (auto simp: commit_def split: if_splits)

section \<open>The two outcomes of a call\<close>

text \<open>
  A call either reports no booking and leaves the committed tables as they were, or
  reports one and has committed exactly the effect \<open>books\<close>.
\<close>

lemma book_txn_outcome:
  assumes "book_txn E flt rq s = (r, s')"
  shows "(\<not> is_booked r \<and> committed s' = committed s) \<or>
         (is_booked r \<and> books E (rq_flight_id rq) (rq_price rq) (committed s) (committed s'))"
  using assms unfolding book_txn_def book_except_def rollback_close_def Let_def is_booked_def
  apply (simp split: sum.splits option.splits if_splits)
  apply (auto dest!: insert_passenger_Inr select_seats_Inr insert_reservation_Inr
      update_seats_Inr commit_Inr get_db_Inr simp: books_def decrement_def split: option.splits)
  done

lemma book_outcome:
  assumes "book E flt payload s = (r, s')"
  shows "(\<not> is_booked r \<and> committed s' = committed s) \<or>
         (is_booked r \<and> (\<exists>rq. book_request E payload = Inr (Inr rq) \<and>
             books E (rq_flight_id rq) (rq_price rq) (committed s) (committed s')))"
proof (cases "book_request E payload")
  case (Inl e)
  with assms show ?thesis by (auto simp: book_def is_booked_def)
next
  case outer: (Inr v)
  show ?thesis
  proof (cases v)
    case (Inl resp)
    with outer assms show ?thesis
      by (auto simp: book_def is_booked_def book_request_def split: sum.splits if_splits)
  next
    case (Inr rq)
    with outer assms have "book_txn E flt rq s = (r, s')"
      by (simp add: book_def)
    from book_txn_outcome[OF this] Inr outer show ?thesis
      by auto
  qed
qed

lemma book_ticket_outcome:
  assumes "book_ticket E flt n a g e fid seat cls pr s = (m, s')"
  shows "(\<not> is_successful m \<and> committed s' = committed s) \<or>
         (is_successful m \<and> (\<exists>x. price_arg E pr = Inr x \<and>
             books E fid x (committed s) (committed s')))"
  using assms unfolding book_ticket_def rollback_close_def abandon_def Let_def
  apply (simp split: sum.splits option.splits if_splits)
  apply (auto dest!: insert_passenger_Inr select_seats_Inr insert_reservation_Inr
      update_seats_Inr commit_Inr get_db_Inr simp: books_def decrement_def split: option.splits)
  done

lemma book_request_flight_id:
  "book_request E payload = Inr (Inr rq) \<Longrightarrow>
     py_get payload ''flight_id'' PNone = Inr (rq_flight_id rq)"
  by (auto simp: book_request_def split: sum.splits if_splits)

lemma book_request_price:
  "book_request E payload = Inr (Inr rq) \<Longrightarrow>
     \<exists>v. py_get payload ''price'' (PFloat 0) = Inr v \<and> py_float E v = Inr (rq_price rq)"
  by (auto simp: book_request_def split: sum.splits if_splits)

lemma books_ledger:
  assumes "books E fid x t t'"
  shows "ledger_total E t' k = ledger_total E t k"
  using assms by (auto simp: books_def ledger_total_def reserved_def)

lemma books_nonneg:
  assumes "books E fid x t t'" and "\<forall>k f. flights t k = Some f \<longrightarrow> 0 \<le> seats_available f"
  shows "\<forall>k f. flights t' k = Some f \<longrightarrow> 0 \<le> seats_available f"
  using assms by (auto simp: books_def split: if_splits)

lemma books_frame:
  assumes "books E fid x t t'"
  shows "flights t' k = flights t k \<or>
         (sql_key E fid = Some k \<and>
          (\<exists>f. flights t k = Some f \<and>
                flights t' k = Some (f\<lparr>seats_available := seats_available f - 1\<rparr>)))"
  using assms by (auto simp: books_def split: if_splits)

lemma exec_call_effect:
  "committed (exec_call E c s) = committed s \<or>
   (\<exists>fid x. books E fid x (committed s) (committed (exec_call E c s)))"
proof (cases c)
  case (Book flt payload)
  obtain r s' where "book E flt payload s = (r, s')"
    by (cases "book E flt payload s")
  from book_outcome[OF this] this Book show ?thesis by auto
next
  case (BookTicket flt n a g e fid seat cls pr)
  obtain m s' where "book_ticket E flt n a g e fid seat cls pr s = (m, s')"
    by (cases "book_ticket E flt n a g e fid seat cls pr s")
  from book_ticket_outcome[OF this] this BookTicket show ?thesis by auto
qed

lemmas demo_defs =
  demo_extern_def demo_flight_def demo_server_def demo_payload_def no_faults_def fault_at_def
  demo_ticket_def demo_calls_def

lemmas world_defs =
  step_def step_insert_passenger_def step_select_def step_insert_reservation_def
  step_update_def step_commit_def finish_def release_def lock_free_def find_flight_def
  start_world_def handler_session_def form_session_def age_arg_def price_arg_def
  dict_get_def int_of_real_def Let_def demo_forms_def demo_handlers_def demo_mixed_def

lemmas model_defs =
  book_def book_request_def book_txn_def book_except_def book_ticket_def age_arg_def
  price_arg_def dict_get_def get_db_def insert_passenger_def select_seats_def
  insert_reservation_def update_seats_def decrement_def commit_def rollback_close_def
  abandon_def int_of_real_def Let_def

section \<open>Properties of the booking transaction\<close>

text \<open>
  C2, counter conservation. For every flight and every state reached by a sequence of
  booking calls (of either function, with any storage failures), the seats still
  available plus the number of reservations of the flight is what it was in the starting
  state, the flight's initial capacity. \<open>ledger_total\<close> is \<open>None\<close> exactly when there
  is no such flight, so flights neither appear nor vanish.
\<close>

theorem counter_conservation:
  "ledger_total E (committed (run E cs s)) k = ledger_total E (committed s) k"
proof (induction cs arbitrary: s)
  case Nil
  show ?case by simp
next
  case (Cons c cs)
  have "ledger_total E (committed (exec_call E c s)) k = ledger_total E (committed s) k"
    using exec_call_effect[of E c s] by (auto simp: books_ledger)
  with Cons.IH[of "exec_call E c s"] show ?case by simp
qed

text \<open>
  C3, atomicity on failure. Whatever statement fails and whatever the call returns short
  of the confirmation of a booking, the committed tables after the call are the tables
  before it: no passenger, no reservation, no changed counter.
\<close>

theorem atomicity_on_failure:
  "(book E flt payload s = (r, s') \<longrightarrow> \<not> is_booked r \<longrightarrow> committed s' = committed s) \<and>
   (book_ticket E flt n a g e fid seat cls pr s = (m, s'') \<longrightarrow> \<not> is_successful m \<longrightarrow>
      committed s'' = committed s)"
  using book_outcome[of E flt payload s r s']
    book_ticket_outcome[of E flt n a g e fid seat cls pr s m s'']
  by blast


theorem atomicity_on_failure_witness:
  "\<not> is_booked (fst (book demo_extern (fault_at UpdateSeats) (demo_payload (PFloat 150)) (demo_server 10))) \<and>
   committed (snd (book demo_extern (fault_at UpdateSeats) (demo_payload (PFloat 150)) (demo_server 10))) =
     committed (demo_server 10) \<and>
   \<not> is_successful (fst (demo_ticket (fault_at UpdateSeats) (PStr ''Jane Doe'') (PInt 42) (PFloat 150) (demo_server 10))) \<and>
   committed (snd (demo_ticket (fault_at UpdateSeats) (PStr ''Jane Doe'') (PInt 42) (PFloat 150) (demo_server 10))) =
     committed (demo_server 10)"
proof -
  let ?b = "book demo_extern (fault_at UpdateSeats) (demo_payload (PFloat 150)) (demo_server 10)"
  let ?t = "demo_ticket (fault_at UpdateSeats) (PStr ''Jane Doe'') (PInt 42) (PFloat 150) (demo_server 10)"
  have b: "fst ?b = Inr (ErrorExn DatabaseError, 500)"
    by (simp add: model_defs demo_defs)
  have t: "fst ?t = ErrorMessage DatabaseError"
    by (simp add: model_defs demo_defs)
  have "?b = (fst ?b, snd ?b)" and "?t = (fst ?t, snd ?t)"
    by simp_all
  with atomicity_on_failure[of demo_extern "fault_at UpdateSeats" "demo_payload (PFloat 150)"
      "demo_server 10" "fst ?b" "snd ?b" "PStr ''Jane Doe''" "PInt 30" "PStr ''Female''"
      "PStr ''jane@example.org''" "PInt 42" "PStr ''12A''" "PStr ''Business''" "PFloat 150"
      "fst ?t" "snd ?t"] b t
  show ?thesis
    by (simp add: is_booked_def demo_ticket_def)
qed

text \<open>
  C6, seat reservation errors. A call that gets as far as the seat check (the request
  passed validation, its values can be bound, and neither connecting nor the two
  statements before the check fail) answers \<open>flight not found\<close> when no flight has the
  given id and \<open>no seats available\<close> when the flight's counter is not positive. The
  server is left with its tables untouched; only the passenger key that the rolled back
  insert had drawn is used up.
\<close>

theorem seat_reservation_errors:
  assumes "\<not> flt Connect" and "\<not> flt InsertPassenger" and "\<not> flt SelectSeats"
    and "book_request E payload = Inr (Inr rq)"
    and "passenger_bindable (rq_passenger rq)" and "bindable (rq_flight_id rq)"
    and "age_arg E a = Inr ag"
    and "bindable n" and "bindable g" and "bindable e" and "bindable fid"
  shows "(find_flight E (rq_flight_id rq) (committed s) = None \<longrightarrow>
            book E flt payload s =
              (Inr (ErrorBody ''flight not found'', 404),
               s\<lparr>passenger_seq := passenger_seq s + 1\<rparr>)) \<and>
         (\<forall>f. find_flight E (rq_flight_id rq) (committed s) = Some f \<and> seats_available f \<le> 0 \<longrightarrow>
            book E flt payload s =
              (Inr (ErrorBody ''no seats available'', 400),
               s\<lparr>passenger_seq := passenger_seq s + 1\<rparr>)) \<and>
         (find_flight E fid (committed s) = None \<longrightarrow>
            book_ticket E flt n a g e fid seat cls pr s =
              (FlightNotFound fid, s\<lparr>passenger_seq := passenger_seq s + 1\<rparr>)) \<and>
         (\<forall>f. find_flight E fid (committed s) = Some f \<and> seats_available f \<le> 0 \<longrightarrow>
            book_ticket E flt n a g e fid seat cls pr s =
              (NoSeatsAvailable, s\<lparr>passenger_seq := passenger_seq s + 1\<rparr>))"
proof -
  have txn: "book E flt payload s = book_txn E flt rq s"
    using assms(4) by (simp add: book_def)
  have ag: "bindable ag"
    using assms(7) by (cases "py_int E a") (auto simp: age_arg_def split: if_splits)
  have 1: "find_flight E (rq_flight_id rq) (committed s) = None \<longrightarrow>
            book_txn E flt rq s =
              (Inr (ErrorBody ''flight not found'', 404), s\<lparr>passenger_seq := passenger_seq s + 1\<rparr>)"
    using assms(1-3,5,6)
    by (auto simp: book_txn_def get_db_def insert_passenger_def select_seats_def Let_def
        find_flight_def rollback_close_def passenger_bindable_def
        split: option.splits pyval.splits)
  have 2: "\<forall>f. find_flight E (rq_flight_id rq) (committed s) = Some f \<and> seats_available f \<le> 0 \<longrightarrow>
            book_txn E flt rq s =
              (Inr (ErrorBody ''no seats available'', 400), s\<lparr>passenger_seq := passenger_seq s + 1\<rparr>)"
    using assms(1-3,5,6)
    by (auto simp: book_txn_def get_db_def insert_passenger_def select_seats_def Let_def
        find_flight_def rollback_close_def passenger_bindable_def
        split: option.splits pyval.splits)
  have 3: "find_flight E fid (committed s) = None \<longrightarrow>
            book_ticket E flt n a g e fid seat cls pr s =
              (FlightNotFound fid, s\<lparr>passenger_seq := passenger_seq s + 1\<rparr>)"
    using assms(1-3,7-11) ag
    by (auto simp: book_ticket_def get_db_def insert_passenger_def select_seats_def Let_def
        find_flight_def rollback_close_def split: option.splits)
  have 4: "\<forall>f. find_flight E fid (committed s) = Some f \<and> seats_available f \<le> 0 \<longrightarrow>
            book_ticket E flt n a g e fid seat cls pr s =
              (NoSeatsAvailable, s\<lparr>passenger_seq := passenger_seq s + 1\<rparr>)"
    using assms(1-3,7-11) ag
    by (auto simp: book_ticket_def get_db_def insert_passenger_def select_seats_def Let_def
        find_flight_def rollback_close_def split: option.splits)
  from 1 2 3 4 txn show ?thesis by simp
qed


theorem seat_reservation_errors_witness:
  "book demo_extern no_faults (demo_payload (PFloat 150)) (demo_server 0) =
     (Inr (ErrorBody ''no seats available'', 400),
      (demo_server 0)\<lparr>passenger_seq := passenger_seq (demo_server 0) + 1\<rparr>) \<and>
   demo_ticket no_faults (PStr ''Jane Doe'') (PInt 7) (PFloat 150) (demo_server 0) =
     (FlightNotFound (PInt 7),
      (demo_server 0)\<lparr>passenger_seq := passenger_seq (demo_server 0) + 1\<rparr>)"
proof -
  let ?rq = "\<lparr>rq_passenger = PDict [(''full_name'', PStr ''Jane Doe'')], rq_flight_id = PInt 42,
              rq_seat_number = PStr ''12A'', rq_travel_class = PStr ''Business'',
              rq_price = 150\<rparr>"
  have rq: "book_request demo_extern (demo_payload (PFloat 150)) = Inr (Inr ?rq)"
    by (simp add: book_request_def dict_get_def demo_defs)
  have pb: "passenger_bindable (rq_passenger ?rq)"
    by (simp add: passenger_bindable_def dict_get_def)
  have ag: "age_arg demo_extern (PInt 30) = Inr (PInt 30)"
    by (simp add: age_arg_def)
  have sold: "find_flight demo_extern (rq_flight_id ?rq) (committed (demo_server 0)) = Some (demo_flight 0)"
    and none: "find_flight demo_extern (PInt 7) (committed (demo_server 0)) = None"
    and zero: "seats_available (demo_flight 0) \<le> 0"
    by (simp_all add: find_flight_def demo_defs)
  from seat_reservation_errors[of no_faults demo_extern "demo_payload (PFloat 150)" ?rq
      "PInt 30" "PInt 30" "PStr ''Jane Doe''" "PStr ''Female''" "PStr ''jane@example.org''"
      "PInt 7" "demo_server 0" "PStr ''12A''" "PStr ''Business''" "PFloat 150"]
    rq pb ag sold none zero
  show ?thesis
    by (simp add: no_faults_def demo_ticket_def)
qed

text \<open>
  C7, the stored price, as the code has it. The reservation a committed booking appends
  carries \<^verbatim>\<open>float(payload.get("price", 0.0))\<close> in the handler, so 0 when the
  request has no price, and \<^verbatim>\<open>float(price) if price else 0.0\<close> in the form
  callback. The number is stored as it converts: there is no guard on its sign.
\<close>

theorem stored_price:
  "(book E flt payload s = (r, s') \<and> is_booked r \<longrightarrow>
      (\<exists>R v. reservations (committed s') = reservations (committed s) @ [R] \<and>
         py_get payload ''price'' (PFloat 0) = Inr v \<and> py_float E v = Inr (price R))) \<and>
   (book_ticket E flt n a g e fid seat cls pr s = (m, s'') \<and> is_successful m \<longrightarrow>
      (\<exists>R. reservations (committed s'') = reservations (committed s) @ [R] \<and>
         price_arg E pr = Inr (price R)))"
proof (intro conjI impI)
  assume "book E flt payload s = (r, s') \<and> is_booked r"
  with book_outcome[of E flt payload s r s'] obtain rq where
    rq: "book_request E payload = Inr (Inr rq)"
    and b: "books E (rq_flight_id rq) (rq_price rq) (committed s) (committed s')"
    by auto
  from book_request_price[OF rq] b
  show "\<exists>R v. reservations (committed s') = reservations (committed s) @ [R] \<and>
         py_get payload ''price'' (PFloat 0) = Inr v \<and> py_float E v = Inr (price R)"
    by (auto simp: books_def)
next
  assume "book_ticket E flt n a g e fid seat cls pr s = (m, s'') \<and> is_successful m"
  with book_ticket_outcome[of E flt n a g e fid seat cls pr s m s'']
  show "\<exists>R. reservations (committed s'') = reservations (committed s) @ [R] \<and>
         price_arg E pr = Inr (price R)"
    by (auto simp: books_def)
qed


theorem stored_price_witness:
  "is_booked (fst (book demo_extern no_faults (demo_payload (PInt (- 5))) (demo_server 10))) \<and>
   is_successful (fst (demo_ticket no_faults (PStr ''Jane Doe'') (PInt 42) PNone (demo_server 10))) \<and>
   (\<exists>R v. reservations (committed (snd (book demo_extern no_faults (demo_payload (PInt (- 5))) (demo_server 10)))) =
       reservations (committed (demo_server 10)) @ [R] \<and>
       py_get (demo_payload (PInt (- 5))) ''price'' (PFloat 0) = Inr v \<and>
       py_float demo_extern v = Inr (price R)) \<and>
   (\<exists>R. reservations (committed (snd (demo_ticket no_faults (PStr ''Jane Doe'') (PInt 42) PNone (demo_server 10)))) =
       reservations (committed (demo_server 10)) @ [R] \<and>
       price_arg demo_extern PNone = Inr (price R))"
proof -
  let ?b = "book demo_extern no_faults (demo_payload (PInt (- 5))) (demo_server 10)"
  let ?t = "demo_ticket no_faults (PStr ''Jane Doe'') (PInt 42) PNone (demo_server 10)"
  have b: "is_booked (fst ?b)"
    by (simp add: is_booked_def model_defs demo_defs)
  have t: "is_successful (fst ?t)"
    by (simp add: model_defs demo_defs)
  have "?b = (fst ?b, snd ?b)" and "?t = (fst ?t, snd ?t)"
    by simp_all
  with stored_price[of demo_extern no_faults "demo_payload (PInt (- 5))" "demo_server 10"
      "fst ?b" "snd ?b" "PStr ''Jane Doe''" "PInt 30" "PStr ''Female''"
      "PStr ''jane@example.org''" "PInt 42" "PStr ''12A''" "PStr ''Business''" PNone
      "fst ?t" "snd ?t"] b t
  show ?thesis
    by (simp add: demo_ticket_def)
qed

text \<open>
  Calls that are served one after the other keep the counters non-negative: if no counter
  is negative in the starting state, none is in any state that a list of calls reaches.
  Calls that overlap are another matter, taken up with the sessions below.
\<close>

theorem seats_never_negative:
  assumes "\<forall>k f. flights (committed s) k = Some f \<longrightarrow> 0 \<le> seats_available f"
  shows "\<forall>k f. flights (committed (run E cs s)) k = Some f \<longrightarrow> 0 \<le> seats_available f"
  using assms
proof (induction cs arbitrary: s)
  case Nil
  then show ?case by simp
next
  case (Cons c cs)
  have "\<forall>k f. flights (committed (exec_call E c s)) k = Some f \<longrightarrow> 0 \<le> seats_available f"
    using exec_call_effect[of E c s] Cons.prems books_nonneg by (metis (no_types, lifting))
  from Cons.IH[OF this] show ?case by simp
qed


theorem seats_never_negative_witness:
  "flights (committed (run demo_extern demo_calls (demo_server 1))) 42 = Some (demo_flight 0) \<and>
   0 \<le> seats_available (demo_flight 0)"
proof -
  have start: "\<forall>k f. flights (committed (demo_server 1)) k = Some f \<longrightarrow> 0 \<le> seats_available f"
    by (simp add: demo_defs)
  have final: "flights (committed (run demo_extern demo_calls (demo_server 1))) 42 = Some (demo_flight 0)"
    by (simp add: model_defs demo_defs)
  from seats_never_negative[OF start, of demo_extern demo_calls] final
  show ?thesis
    by blast
qed

text \<open>
  C9, price coercion precedes validation. When the payload of the handler has a price
  that \<^verbatim>\<open>float\<close> rejects, the handler ends with that exception, whatever the other
  fields are, and the server is as it was: not even a connection was opened.
\<close>

theorem price_coercion_precedes_validation:
  assumes "map_of kvs ''price'' = Some v" and "py_float E v = Inl e"
  shows "book E flt (PDict kvs) s = (Inl e, s)"
  using assms by (simp add: book_def book_request_def dict_get_def)


theorem price_coercion_precedes_validation_witness:
  "book demo_extern no_faults (PDict [(''passenger'', PDict []), (''price'', PStr ''free'')])
     (demo_server 10) = (Inl ValueError, demo_server 10)"
  using price_coercion_precedes_validation[of "[(''passenger'', PDict []), (''price'', PStr ''free'')]"
      "PStr ''free''" demo_extern ValueError no_faults "demo_server 10"]
  by (simp add: demo_extern_def)

text \<open>
  C10, the frame of a booking. A call of either function leaves the other tables alone,
  and every flight as it was, except that the flight whose id the call gives may have its
  \<open>seats_available\<close>, and nothing else of it, lowered by one.
\<close>

theorem booking_frame:
  "(book E flt payload s = (r, s') \<longrightarrow>
      airlines (committed s') = airlines (committed s) \<and>
      (flights (committed s') k = flights (committed s) k \<or>
       (requested_flight E payload = Some k \<and>
        (\<exists>f. flights (committed s) k = Some f \<and>
              flights (committed s') k = Some (f\<lparr>seats_available := seats_available f - 1\<rparr>))))) \<and>
   (book_ticket E flt n a g e fid seat cls pr s = (m, s'') \<longrightarrow>
      airlines (committed s'') = airlines (committed s) \<and>
      (flights (committed s'') k = flights (committed s) k \<or>
       (sql_key E fid = Some k \<and>
        (\<exists>f. flights (committed s) k = Some f \<and>
              flights (committed s'') k = Some (f\<lparr>seats_available := seats_available f - 1\<rparr>)))))"
proof (intro conjI impI)
  assume a: "book E flt payload s = (r, s')"
  from book_outcome[OF a] show "airlines (committed s') = airlines (committed s)"
    by (auto simp: books_def)
  from book_outcome[OF a]
  show "flights (committed s') k = flights (committed s) k \<or>
       (requested_flight E payload = Some k \<and>
        (\<exists>f. flights (committed s) k = Some f \<and>
              flights (committed s') k = Some (f\<lparr>seats_available := seats_available f - 1\<rparr>)))"
  proof (elim disjE conjE exE)
    fix rq
    assume rq: "book_request E payload = Inr (Inr rq)"
      and b: "books E (rq_flight_id rq) (rq_price rq) (committed s) (committed s')"
    from book_request_flight_id[OF rq]
    have "requested_flight E payload = sql_key E (rq_flight_id rq)"
      by (simp add: requested_flight_def)
    with books_frame[OF b, of k] show ?thesis by auto
  qed simp
next
  assume a: "book_ticket E flt n a g e fid seat cls pr s = (m, s'')"
  from book_ticket_outcome[OF a] show "airlines (committed s'') = airlines (committed s)"
    by (auto simp: books_def)
  from book_ticket_outcome[OF a]
  show "flights (committed s'') k = flights (committed s) k \<or>
       (sql_key E fid = Some k \<and>
        (\<exists>f. flights (committed s) k = Some f \<and>
              flights (committed s'') k = Some (f\<lparr>seats_available := seats_available f - 1\<rparr>)))"
    using books_frame[of E fid _ "committed s" "committed s''" k] by auto
qed


theorem booking_frame_witness:
  "airlines (committed (snd (book demo_extern no_faults (demo_payload (PFloat 150)) (demo_server 10)))) =
     airlines (committed (demo_server 10)) \<and>
   flights (committed (snd (book demo_extern no_faults (demo_payload (PFloat 150)) (demo_server 10)))) 7 =
     flights (committed (demo_server 10)) 7 \<and>
   airlines (committed (snd (demo_ticket no_faults (PStr ''Jane Doe'') (PInt 42) (PFloat 150) (demo_server 10)))) =
     airlines (committed (demo_server 10)) \<and>
   flights (committed (snd (demo_ticket no_faults (PStr ''Jane Doe'') (PInt 42) (PFloat 150) (demo_server 10)))) 7 =
     flights (committed (demo_server 10)) 7"
proof -
  let ?b = "book demo_extern no_faults (demo_payload (PFloat 150)) (demo_server 10)"
  let ?t = "demo_ticket no_faults (PStr ''Jane Doe'') (PInt 42) (PFloat 150) (demo_server 10)"
  have rf: "requested_flight demo_extern (demo_payload (PFloat 150)) = Some 42"
    by (simp add: requested_flight_def dict_get_def demo_defs)
  have "?b = (fst ?b, snd ?b)" and "?t = (fst ?t, snd ?t)"
    by simp_all
  with booking_frame[of demo_extern no_faults "demo_payload (PFloat 150)" "demo_server 10"
      "fst ?b" "snd ?b" 7 "PStr ''Jane Doe''" "PInt 30" "PStr ''Female''"
      "PStr ''jane@example.org''" "PInt 42" "PStr ''12A''" "PStr ''Business''" "PFloat 150"
      "fst ?t" "snd ?t"] rf
  show ?thesis
    by (simp add: demo_ticket_def)
qed

section \<open>Where the code departs from its description\<close>

text \<open>
  The handler does test the two required fields, once the price has been converted: a
  request whose name or flight id is missing or empty (or is the number 0) is answered
  with status 400 and the server is not contacted.
\<close>

lemma book_rejects_missing_fields:
  assumes "py_get payload ''passenger'' (PDict []) = Inr p"
    and "py_get p ''full_name'' PNone = Inr nm"
    and "py_get payload ''flight_id'' PNone = Inr fid"
    and "py_get payload ''price'' (PFloat 0) = Inr v" and "py_float E v = Inr x"
    and "\<not> truthy nm \<or> \<not> truthy fid"
  shows "book E flt payload s =
           (Inr (ErrorBody ''missing passenger name or flight_id'', 400), s)"
proof -
  obtain kvs where "payload = PDict kvs"
    using assms(1) by (cases payload) simp_all
  with assms show ?thesis
    by (auto simp: book_def book_request_def)
qed

text \<open>
  C4, validation. \<open>book_ticket\<close> has no such test. Called with an empty name for a
  flight that has seats, it commits a passenger whose name is empty together with a
  reservation, takes a seat and reports success.
\<close>

theorem book_ticket_accepts_empty_name:
  "is_successful (fst (demo_ticket no_faults (PStr []) (PInt 42) (PFloat 150) (demo_server 10))) \<and>
   map full_name (passengers (committed (snd
     (demo_ticket no_faults (PStr []) (PInt 42) (PFloat 150) (demo_server 10))))) = [PStr []] \<and>
   map r_passenger_id (reservations (committed (snd
     (demo_ticket no_faults (PStr []) (PInt 42) (PFloat 150) (demo_server 10))))) = [PInt 1] \<and>
   map_option seats_available (flights (committed (snd
     (demo_ticket no_faults (PStr []) (PInt 42) (PFloat 150) (demo_server 10)))) 42) = Some 9"
  by (simp add: model_defs demo_defs)

text \<open>
  C5, the confirmation. A booking through the handler creates reservation 1 and answers
  \<^verbatim>\<open>{"status": "booked"}\<close>, which names no reservation. \<open>book_ticket\<close> reports
  \<^verbatim>\<open>cur.lastrowid\<close> as the reservation id, but reads it after the \<^verbatim>\<open>UPDATE\<close>
  of the flight, so it reports 0 for reservation 1.
\<close>

theorem confirmation_lacks_reservation_id:
  "fst (book demo_extern no_faults (demo_payload (PFloat 150)) (demo_server 10)) =
     Inr (StatusBody ''booked'', 200) \<and>
   map reservation_id (reservations (committed (snd
     (book demo_extern no_faults (demo_payload (PFloat 150)) (demo_server 10))))) = [1] \<and>
   fst (demo_ticket no_faults (PStr ''Jane Doe'') (PInt 42) (PFloat 150) (demo_server 10)) =
     BookingSuccessful (PInt 0) \<and>
   map reservation_id (reservations (committed (snd
     (demo_ticket no_faults (PStr ''Jane Doe'') (PInt 42) (PFloat 150) (demo_server 10))))) = [1]"
  by (simp add: model_defs demo_defs)

text \<open>
  C7 as the specification words it, with a guard that turns a negative price into 0,
  fails: a request with price -5 is booked and the reservation carries -5.
\<close>

theorem negative_price_is_stored:
  "fst (book demo_extern no_faults (demo_payload (PInt (- 5))) (demo_server 10)) =
     Inr (StatusBody ''booked'', 200) \<and>
   map price (reservations (committed (snd
     (book demo_extern no_faults (demo_payload (PInt (- 5))) (demo_server 10))))) = [- 5] \<and>
   map price (reservations (committed (snd
     (demo_ticket no_faults (PStr ''Jane Doe'') (PInt 42) (PFloat (- 5)) (demo_server 10))))) = [- 5]"
  by (simp add: model_defs demo_defs)


section \<open>Sessions and calls\<close>

text \<open>
  A session that runs alone does what the sequential function does when no statement
  fails: the same committed tables and the same outcome.
\<close>

lemmas step_defs =
  step_def step_insert_passenger_def step_select_def step_insert_reservation_def
  step_update_def step_commit_def finish_def release_def lock_free_def find_flight_def
  start_world_def

lemma form_alone:
  "store (sched E [0, 0, 0, 0, 0] (start_world s [form_session E nm ag gd em fid seat cls pr])) =
     committed (snd (book_ticket E no_faults nm ag gd em fid seat cls pr s)) \<and>
   map pc (sessions (sched E [0, 0, 0, 0, 0]
       (start_world s [form_session E nm ag gd em fid seat cls pr]))) =
     [Finished (outcome_of (fst (book_ticket E no_faults nm ag gd em fid seat cls pr s)))]"
proof (cases "age_arg E ag")
  case (Inl e)
  then show ?thesis
    by (simp add: step_defs form_session_def book_ticket_def get_db_def no_faults_def abandon_def)
next
  case age: (Inr a')
  note seq = form_session_def book_ticket_def get_db_def no_faults_def abandon_def
    rollback_close_def insert_passenger_def select_seats_def Let_def
  show ?thesis
  proof (cases "bindable nm \<and> bindable a' \<and> bindable gd \<and> bindable em")
    case False
    with age show ?thesis
      by (simp add: step_defs seq)
  next
    case bp: True
    show ?thesis
    proof (cases "bindable fid")
      case False
      with age bp show ?thesis
        by (simp add: step_defs seq)
    next
      case bf: True
      show ?thesis
      proof (cases "find_flight E fid (committed s)")
        case None
        with age bp bf show ?thesis
          by (simp add: step_defs seq split: option.splits)
      next
        case (Some f)
        then obtain k where k: "sql_key E fid = Some k" "flights (committed s) k = Some f"
          by (auto simp: find_flight_def split: option.splits)
        show ?thesis
        proof (cases "seats_available f \<le> 0")
          case True
          with age bp bf k show ?thesis
            by (simp add: step_defs seq)
        next
          case pos: False
          show ?thesis
          proof (cases "price_arg E pr")
            case (Inl e)
            with age bp bf k pos show ?thesis
              by (simp add: step_defs seq)
          next
            case (Inr x)
            with age bp bf k pos show ?thesis
              by (simp add: step_defs seq insert_reservation_def update_seats_def
                  decrement_def commit_def)
          qed
        qed
      qed
    qed
  qed
qed

lemma handler_txn_alone:
  assumes pk: "rq_passenger rq = PDict pk"
  shows "store (sched E [0, 0, 0, 0, 0] (start_world s [handler_session rq])) =
           committed (snd (book_txn E no_faults rq s)) \<and>
         map pc (sessions (sched E [0, 0, 0, 0, 0] (start_world s [handler_session rq]))) =
           [Finished (response_outcome (fst (book_txn E no_faults rq s)))]"
proof -
  let ?nm = "dict_get pk ''full_name'' PNone" and ?ag = "dict_get pk ''age'' PNone"
  let ?gd = "dict_get pk ''gender'' PNone" and ?em = "dict_get pk ''email'' PNone"
  let ?fid = "rq_flight_id rq"
  have hs: "handler_session rq =
    \<lparr>origin = Handler, a_name = ?nm, a_age = Inr ?ag, a_gender = ?gd, a_email = ?em,
     a_flight_id = ?fid, a_seat = rq_seat_number rq, a_class = rq_travel_class rq,
     a_price = Inr (rq_price rq), pc = AtInsertPassenger, got_id = PNone,
     new_passengers = [], new_reservations = [], new_flights = Map.empty\<rparr>"
    by (simp add: handler_session_def pk)
  have pg: "\<And>key. py_get (rq_passenger rq) key PNone = Inr (dict_get pk key PNone)"
    by (simp add: pk)
  note seq = book_txn_def book_except_def get_db_def no_faults_def rollback_close_def
    insert_passenger_def select_seats_def Let_def hs pg
  show ?thesis
  proof (cases "bindable ?nm \<and> bindable ?ag \<and> bindable ?gd \<and> bindable ?em")
    case False
    then show ?thesis
      by (simp add: seq step_defs)
  next
    case bp: True
    show ?thesis
    proof (cases "bindable ?fid")
      case False
      with bp show ?thesis
        by (simp add: seq step_defs)
    next
      case bf: True
      show ?thesis
      proof (cases "find_flight E ?fid (committed s)")
        case None
        with bp bf show ?thesis
          by (simp add: seq step_defs split: option.splits)
      next
        case (Some f)
        then obtain k where k: "sql_key E ?fid = Some k" "flights (committed s) k = Some f"
          by (auto simp: find_flight_def split: option.splits)
        show ?thesis
        proof (cases "seats_available f \<le> 0")
          case True
          with bp bf k show ?thesis
            by (simp add: seq step_defs)
        next
          case pos: False
          show ?thesis
          proof (cases "bindable (rq_seat_number rq) \<and> bindable (rq_travel_class rq)")
            case False
            with bp bf k pos show ?thesis
              by (simp add: seq step_defs insert_reservation_def)
          next
            case True
            with bp bf k pos show ?thesis
              by (simp add: seq step_defs insert_reservation_def update_seats_def
                  decrement_def commit_def)
          qed
        qed
      qed
    qed
  qed
qed

lemma py_get_Inr: "py_get p key d = Inr v \<Longrightarrow> \<exists>kvs. p = PDict kvs"
  by (cases p) simp_all

lemma book_request_passenger:
  assumes "book_request E payload = Inr (Inr rq)"
  shows "\<exists>pk. rq_passenger rq = PDict pk"
proof -
  from assms obtain nm where "py_get (rq_passenger rq) ''full_name'' PNone = Inr nm"
    by (auto simp: book_request_def split: sum.splits if_splits)
  then show ?thesis by (rule py_get_Inr)
qed

lemma handler_alone:
  assumes "book_request E payload = Inr (Inr rq)"
  shows "store (sched E [0, 0, 0, 0, 0] (start_world s [handler_session rq])) =
           committed (snd (book E no_faults payload s)) \<and>
         map pc (sessions (sched E [0, 0, 0, 0, 0] (start_world s [handler_session rq]))) =
           [Finished (response_outcome (fst (book E no_faults payload s)))]"
proof -
  have txn: "book E no_faults payload s = book_txn E no_faults rq s"
    using assms by (simp add: book_def)
  from book_request_passenger[OF assms] obtain pk where "rq_passenger rq = PDict pk" ..
  from handler_txn_alone[OF this] txn show ?thesis
    by simp
qed

section \<open>Concurrent calls of \<open>book\<close> do not oversell\<close>

lemma count_update:
  "i < length xs \<Longrightarrow> \<not> P (xs ! i) \<Longrightarrow>
     length (filter P (xs[i := y])) = length (filter P xs) + (if P y then 1 else 0)"
proof (induction xs arbitrary: i)
  case Nil
  then show ?case by simp
next
  case (Cons x xs)
  then show ?case by (cases i) auto
qed

lemmas inv_defs =
  ledger_inv_def sess_ok_def successes_def booked_on_def critical_def
  finish_def release_def lock_free_def find_flight_def nth_list_update count_update

lemma insert_passenger_keeps_inv:
  assumes "ledger_inv E k N w" and "j < length (sessions w)"
    and "pc (sessions w ! j) = AtInsertPassenger"
  shows "ledger_inv E k N (step_insert_passenger j (sessions w ! j) w)"
  using assms
  by (auto simp: inv_defs step_insert_passenger_def split: sum.splits)

lemma select_keeps_inv:
  assumes "ledger_inv E k N w" and "j < length (sessions w)"
    and "pc (sessions w ! j) = AtSelect"
  shows "ledger_inv E k N (step_select E j (sessions w ! j) w)"
  using assms
  by (auto simp: inv_defs step_select_def split: option.splits)

lemma insert_reservation_keeps_inv:
  assumes "ledger_inv E k N w" and "j < length (sessions w)"
    and "pc (sessions w ! j) = AtInsertReservation"
  shows "ledger_inv E k N (step_insert_reservation j (sessions w ! j) w)"
  using assms
  by (auto simp: inv_defs step_insert_reservation_def split: sum.splits)

lemma update_keeps_inv:
  assumes "ledger_inv E k N w" and "j < length (sessions w)"
    and "pc (sessions w ! j) = AtUpdate"
  shows "ledger_inv E k N (step_update E j (sessions w ! j) w)"
  using assms
  by (auto simp: inv_defs step_update_def split: option.splits)

lemma commit_keeps_inv:
  assumes "ledger_inv E k N w" and "j < length (sessions w)"
    and "pc (sessions w ! j) = AtCommit"
  shows "ledger_inv E k N (step_commit j (sessions w ! j) w)"
  using assms
  by (auto simp: inv_defs step_commit_def map_add_def split: option.splits)

lemma step_keeps_inv:
  assumes "ledger_inv E k N w"
  shows "ledger_inv E k N (step E j w)"
proof (cases "j < length (sessions w)")
  case False
  with assms show ?thesis by (simp add: step_def)
next
  case True
  with assms show ?thesis
    by (cases "pc (sessions w ! j)")
      (simp_all add: step_def insert_passenger_keeps_inv select_keeps_inv
        insert_reservation_keeps_inv update_keeps_inv commit_keeps_inv)
qed

lemma sched_keeps_inv:
  "ledger_inv E k N w \<Longrightarrow> ledger_inv E k N (sched E js w)"
  by (induction js arbitrary: w) (simp_all add: step_keeps_inv)

lemma start_inv:
  assumes "flights (committed s) k = Some f" and "0 \<le> seats_available f"
  shows "ledger_inv E k (seats_available f) (start_world s (map handler_session rqs))"
  using assms
  by (auto simp: ledger_inv_def sess_ok_def successes_def booked_on_def critical_def
      start_world_def handler_session_def Let_def)

text \<open>
  Whatever requests \<open>book\<close> serves at once and however the server interleaves their
  statements, a flight that starts with a non-negative counter keeps it non-negative, and
  the counter plus the bookings done stays what it was: no more calls succeed than the
  flight had seats.
\<close>

lemma handlers_never_oversell:
  assumes "flights (committed s) k = Some f" and "0 \<le> seats_available f"
  shows "\<exists>f'. flights (store (sched E js (start_world s (map handler_session rqs)))) k = Some f' \<and>
           0 \<le> seats_available f' \<and>
           seats_available f' +
             int (successes E k (sched E js (start_world s (map handler_session rqs)))) =
           seats_available f"
  using sched_keeps_inv[OF start_inv[OF assms], of E js rqs]
  by (simp add: ledger_inv_def)

section \<open>Concurrent calls of \<open>book_ticket\<close> oversell\<close>

text \<open>
  C1, no oversell. Two calls of \<open>book_ticket\<close> for the last seat of flight 42 run
  together: both insert their passenger, both read the counter (1) with the plain
  \<^verbatim>\<open>SELECT\<close>, then each inserts its reservation, lowers the counter and commits.
  Both report a booking; the flight ends with two reservations and the counter at -1.
\<close>

theorem form_calls_oversell:
  "map pc (sessions (sched demo_extern [0, 1, 0, 1, 0, 0, 0, 1, 1, 1]
      (start_world (demo_server 1) demo_forms))) = [Finished Booked, Finished Booked] \<and>
   successes demo_extern 42 (sched demo_extern [0, 1, 0, 1, 0, 0, 0, 1, 1, 1]
      (start_world (demo_server 1) demo_forms)) = 2 \<and>
   map r_flight_id (reservations (store (sched demo_extern [0, 1, 0, 1, 0, 0, 0, 1, 1, 1]
      (start_world (demo_server 1) demo_forms)))) = [PInt 42, PInt 42] \<and>
   map_option seats_available (flights (store (sched demo_extern [0, 1, 0, 1, 0, 0, 0, 1, 1, 1]
      (start_world (demo_server 1) demo_forms))) 42) = Some (- 1)"
  by (simp add: world_defs demo_defs successes_def booked_on_def)

text \<open>
  The same two requests through \<open>book\<close>, in the same order of steps: the second
  \<^verbatim>\<open>SELECT ... FOR UPDATE\<close> waits for the first transaction, then reads 0.
\<close>

lemma handler_calls_last_seat:
  "map pc (sessions (sched demo_extern [0, 1, 0, 1, 0, 0, 0, 1, 1, 1]
      (start_world (demo_server 1) demo_handlers))) = [Finished Booked, Finished SoldOut] \<and>
   map_option seats_available (flights (store (sched demo_extern [0, 1, 0, 1, 0, 0, 0, 1, 1, 1]
      (start_world (demo_server 1) demo_handlers))) 42) = Some 0"
  by (simp add: world_defs demo_defs)

text \<open>
  C8, non-negative counter. The starting state has one flight, 42, with 1 seat, so no
  counter is negative. The two concurrent calls of \<open>book_ticket\<close> above leave the
  counter of flight 42 at -1: each decrement was preceded by a check that found the
  counter positive, but the check is a plain \<^verbatim>\<open>SELECT\<close> and the counter it read was
  no longer current at the \<^verbatim>\<open>UPDATE\<close>. The same happens when only the second
  call is a \<open>book_ticket\<close> and the first is a \<open>book\<close> that holds the lock of the
  row: the plain read does not wait for it.
\<close>

theorem form_calls_drive_counter_negative:
  "flights (committed (demo_server 1)) = [42 \<mapsto> demo_flight 1] \<and>
   seats_available (demo_flight 1) = 1 \<and>
   map_option seats_available (flights (store (sched demo_extern [0, 1, 0, 1, 0, 0, 0, 1, 1, 1]
      (start_world (demo_server 1) demo_forms))) 42) = Some (- 1) \<and>
   map pc (sessions (sched demo_extern [0, 1, 0, 1, 0, 0, 0, 1, 1, 1]
      (start_world (demo_server 1) demo_mixed))) = [Finished Booked, Finished Booked] \<and>
   map_option seats_available (flights (store (sched demo_extern [0, 1, 0, 1, 0, 0, 0, 1, 1, 1]
      (start_world (demo_server 1) demo_mixed))) 42) = Some (- 1)"
  by (simp add: world_defs demo_defs)

end
